theory Spec2Isabelle
  imports Complex_Main "HOL-Library.Sublist"
begin

section \<open>Failures and outcomes\<close>

text \<open>
  The scripts are TypeScript on Node. What they throw is a value here. An \<open>async\<close>
  function settles in one of three ways: it resolves, it rejects, or the promise it
  awaits never settles (an interactive question nobody answers, a network call that
  never returns).
\<close>

datatype error =
    ENOENT string       \<comment> \<open>\<open>readFileSync\<close>: no such file; the error carries the path it was given\<close>
  | SyntaxError string  \<comment> \<open>\<open>JSON.parse\<close>: the parser's message\<close>
  | TypeError string    \<comment> \<open>reading a property of \<open>undefined\<close>\<close>
  | ServiceError string \<comment> \<open>whatever the MongoDB driver or the OpenAI SDK throws\<close>

datatype 'a res = Ok 'a | Throw error | Hang

type_synonym ('a, 's) io = "'s \<Rightarrow> 'a res \<times> 's"

definition resolve :: "'a \<Rightarrow> ('a, 's) io" where
  "resolve a s = (Ok a, s)"

definition reject :: "error \<Rightarrow> ('a, 's) io" where
  "reject e s = (Throw e, s)"

text \<open>\<open>const x = await m; rest\<close>: the rest runs only when \<open>m\<close> resolves.\<close>

definition await :: "('a, 's) io \<Rightarrow> ('a \<Rightarrow> ('b, 's) io) \<Rightarrow> ('b, 's) io" where
  "await m f s =
     (case m s of
        (Ok a, s') \<Rightarrow> f a s'
      | (Throw e, s') \<Rightarrow> (Throw e, s')
      | (Hang, s') \<Rightarrow> (Hang, s'))"

text \<open>A synchronous call that throws inside an \<open>async\<close> function rejects its promise.\<close>

definition sync :: "error + 'a \<Rightarrow> ('a, 's) io" where
  "sync r s = (case r of Inl e \<Rightarrow> (Throw e, s) | Inr a \<Rightarrow> (Ok a, s))"


section \<open>The process and the platform\<close>

record process =
  env :: "string \<rightharpoonup> string"   \<comment> \<open>\<open>process.env\<close>\<close>
  argv :: "string list"         \<comment> \<open>\<open>process.argv\<close>, after the script name\<close>
  cwd :: string                 \<comment> \<open>\<open>process.cwd()\<close>\<close>

text \<open>
  Node's \<open>path.join\<close>, the file system and \<open>JSON.parse\<close> are not code of the
  repository: they are parameters. \<open>files\<close> maps a path to the text of the file there;
  \<open>parse\<close> gives the parsed document, or the message of the \<open>SyntaxError\<close>. The parser
  is handed the text alone.
\<close>

record 'd platform =
  path_join :: "string list \<Rightarrow> string"
  files :: "string \<rightharpoonup> string"
  parse :: "string \<Rightarrow> string + 'd"

definition readFileSync :: "'d platform \<Rightarrow> string \<Rightarrow> error + string" where
  "readFileSync pl path =
     (case files pl path of None \<Rightarrow> Inl (ENOENT path) | Some text \<Rightarrow> Inr text)"

definition JSON_parse :: "'d platform \<Rightarrow> string \<Rightarrow> error + 'd" where
  "JSON_parse pl text =
     (case parse pl text of Inl msg \<Rightarrow> Inl (SyntaxError msg) | Inr d \<Rightarrow> Inr d)"


section \<open>scripts/create-indexes.ts: the data\<close>

record IndexSpec =
  col :: string    \<comment> \<open>collection name\<close>
  name :: string   \<comment> \<open>index name in Atlas Search\<close>
  "file" :: string   \<comment> \<open>JSON file in config/indexes/\<close>

definition ALL_SPECS :: "IndexSpec list" where
  "ALL_SPECS =
     [\<lparr>col = ''products'', name = ''vector'', file = ''products.vector.json''\<rparr>,
      \<lparr>col = ''products'', name = ''hybrid'', file = ''products.hybrid.json''\<rparr>,
      \<lparr>col = ''docs'', name = ''vector'', file = ''docs.vector.json''\<rparr>,
      \<lparr>col = ''tickets'', name = ''hybrid'', file = ''tickets.hybrid.json''\<rparr>]"

text \<open>
  \<open>loadDefinition\<close>: join the working directory, \<open>config\<close>, \<open>indexes\<close> and the file
  name, read the file, parse it. Nothing is caught. (A parameter that shares its name
  with a field of \<open>IndexSpec\<close> is primed.)
\<close>

definition loadDefinition :: "process \<Rightarrow> 'd platform \<Rightarrow> string \<Rightarrow> error + 'd" where
  "loadDefinition p pl file' =
     (let full = path_join pl [cwd p, ''config'', ''indexes'', file']
      in case readFileSync pl full of
           Inl e \<Rightarrow> Inl e
         | Inr text \<Rightarrow> JSON_parse pl text)"


section \<open>The MongoDB driver, the console and the terminal\<close>

text \<open>
  What the script does to the outside is a trace of events, in order. The log texts are
  the bytes the script writes (UTF-8): \<open>\n\<close> is \<open>CHR 0x0A\<close>, a single quote is
  \<open>CHR 0x27\<close>.
\<close>

record db =
  client_uri :: string   \<comment> \<open>the URI of the \<open>MongoClient\<close> the handle comes from\<close>
  db_name :: string

datatype 'd index_doc = IndexDoc (idx_name: string) (idx_definition: 'd)

datatype 'd arg = Str string | Names "string list" | Err error | Doc "'d index_doc"

datatype 'd event =
    Prompt string                          \<comment> \<open>\<open>rl.question(question, ...)\<close>\<close>
  | Connect string                         \<comment> \<open>\<open>client.connect()\<close>\<close>
  | ListSearchIndexes db string            \<comment> \<open>\<open>col.listSearchIndexes().toArray()\<close>\<close>
  | CreateSearchIndex db string 'd         \<comment> \<open>\<open>col.createSearchIndex(definition)\<close>\<close>
  | UpdateSearchIndex db string string 'd  \<comment> \<open>\<open>col.updateSearchIndex(name, definition)\<close>\<close>
  | Close string                           \<comment> \<open>\<open>client.close()\<close>\<close>
  | ConsoleLog "'d arg list"
  | ConsoleError "'d arg list"
  | ConsoleDir "'d index_doc"

text \<open>
  The driver and the server behind it are parameters. The server may answer the same
  request differently at different times, so each answer is a function of the events so
  far. \<open>new MongoClient(uri)\<close> makes no call; it throws on a connection string it cannot
  parse.
\<close>

record 'd driver =
  MongoClient_new :: "string \<Rightarrow> error option"
  connect :: "'d event list \<Rightarrow> string \<Rightarrow> unit res"
  listSearchIndexes :: "'d event list \<Rightarrow> db \<Rightarrow> string \<Rightarrow> 'd index_doc list res"
  createSearchIndex :: "'d event list \<Rightarrow> db \<Rightarrow> string \<Rightarrow> 'd \<Rightarrow> unit res"
  updateSearchIndex :: "'d event list \<Rightarrow> db \<Rightarrow> string \<Rightarrow> string \<Rightarrow> 'd \<Rightarrow> unit res"
  close :: "'d event list \<Rightarrow> string \<Rightarrow> unit res"

record 'd state =
  trace :: "'d event list"
  stdin :: "(string \<times> string list) list"   \<comment> \<open>the chunks of input still to come\<close>

definition emit :: "'d event \<Rightarrow> 'd state \<Rightarrow> 'd state" where
  "emit e s = s\<lparr>trace := trace s @ [e]\<rparr>"

definition console_log :: "'d arg list \<Rightarrow> (unit, 'd state) io" where
  "console_log args s = (Ok (), emit (ConsoleLog args) s)"

definition console_error :: "'d arg list \<Rightarrow> (unit, 'd state) io" where
  "console_error args s = (Ok (), emit (ConsoleError args) s)"

definition console_dir :: "'d index_doc \<Rightarrow> (unit, 'd state) io" where
  "console_dir idx s = (Ok (), emit (ConsoleDir idx) s)"

definition new_MongoClient :: "'d driver \<Rightarrow> string \<Rightarrow> error + string" where
  "new_MongoClient drv uri = (case MongoClient_new drv uri of Some e \<Rightarrow> Inl e | None \<Rightarrow> Inr uri)"

definition client_connect :: "'d driver \<Rightarrow> string \<Rightarrow> (unit, 'd state) io" where
  "client_connect drv client s = (connect drv (trace s) client, emit (Connect client) s)"

definition client_db :: "string \<Rightarrow> string \<Rightarrow> db" where
  "client_db client dbName = \<lparr>client_uri = client, db_name = dbName\<rparr>"

definition client_close :: "'d driver \<Rightarrow> string \<Rightarrow> (unit, 'd state) io" where
  "client_close drv client s = (close drv (trace s) client, emit (Close client) s)"

text \<open>\<open>db.collection(colName)\<close> is a handle: the database and the collection's name.\<close>

definition db_collection :: "db \<Rightarrow> string \<Rightarrow> db \<times> string" where
  "db_collection d colName = (d, colName)"

definition col_listSearchIndexes_toArray ::
    "'d driver \<Rightarrow> db \<times> string \<Rightarrow> ('d index_doc list, 'd state) io" where
  "col_listSearchIndexes_toArray drv c s =
     (listSearchIndexes drv (trace s) (fst c) (snd c), emit (ListSearchIndexes (fst c) (snd c)) s)"

definition col_createSearchIndex :: "'d driver \<Rightarrow> db \<times> string \<Rightarrow> 'd \<Rightarrow> (unit, 'd state) io" where
  "col_createSearchIndex drv c definition s =
     (createSearchIndex drv (trace s) (fst c) (snd c) definition,
      emit (CreateSearchIndex (fst c) (snd c) definition) s)"

definition col_updateSearchIndex ::
    "'d driver \<Rightarrow> db \<times> string \<Rightarrow> string \<Rightarrow> 'd \<Rightarrow> (unit, 'd state) io" where
  "col_updateSearchIndex drv c name' definition s =
     (updateSearchIndex drv (trace s) (fst c) (snd c) name' definition,
      emit (UpdateSearchIndex (fst c) (snd c) name' definition) s)"

text \<open>
  \<open>answer.trim()\<close> strips white space at both ends (here: the ASCII white space).
  \<open>prompt\<close> builds a readline interface on standard input for its one question and
  closes it in the callback. Input reaches an interface in chunks. The first line of the
  next chunk answers the question; the lines behind it in the same chunk were handed to
  the interface that is closed by then, so the next question never sees them. \<open>stdin\<close>
  lists the chunks still to come, each as its first line and the lines behind it (at a
  terminal a chunk is one typed line; a file piped in arrives as one chunk). With no
  chunk left (standard input at its end) the callback never runs and the promise never
  settles.
\<close>

definition is_space :: "char \<Rightarrow> bool" where
  "is_space c = (c \<in> set [CHR '' '', CHR 0x09, CHR 0x0A, CHR 0x0B, CHR 0x0C, CHR 0x0D])"

definition trim :: "string \<Rightarrow> string" where
  "trim a = rev (dropWhile is_space (rev (dropWhile is_space a)))"

definition prompt :: "string \<Rightarrow> (string, 'd state) io" where
  "prompt question s =
     (case stdin s of
        [] \<Rightarrow> (Hang, emit (Prompt question) s)
      | (answer, dropped) # rest \<Rightarrow>
          (Ok (trim answer), emit (Prompt question) (s\<lparr>stdin := rest\<rparr>)))"

text \<open>\<open>v || await m\<close> on an environment variable: an unset and an empty one are both falsy.\<close>

definition or_await :: "string option \<Rightarrow> (string, 's) io \<Rightarrow> (string, 's) io" where
  "or_await v m = (case v of None \<Rightarrow> m | Some x \<Rightarrow> if x = [] then m else resolve x)"

text \<open>\<open>xs.forEach(f)\<close> with a synchronous callback.\<close>

fun forEach :: "'a list \<Rightarrow> ('a \<Rightarrow> (unit, 's) io) \<Rightarrow> (unit, 's) io" where
  "forEach [] f = resolve ()"
| "forEach (x # xs) f = await (f x) (\<lambda>_. forEach xs f)"


section \<open>scripts/create-indexes.ts: the functions\<close>

text \<open>
  \<open>listExistingIndexes\<close>: the handle is taken outside the \<open>try\<close>; the listing and the
  projection to names are inside; the \<open>catch\<close> logs and returns \<open>[]\<close>.
\<close>

definition listExistingIndexes :: "'d driver \<Rightarrow> db \<Rightarrow> string \<Rightarrow> (string list, 'd state) io" where
  "listExistingIndexes drv d colName s =
     (let col' = db_collection d colName
      in case col_listSearchIndexes_toArray drv col' s of
           (Ok all, s') \<Rightarrow> (Ok (map idx_name all), s')
         | (Throw err, s') \<Rightarrow>
             await (console_error [Str (''Failed to list indexes for '' @ colName @ '':''), Err err])
               (\<lambda>_. resolve []) s'
         | (Hang, s') \<Rightarrow> (Hang, s'))"

definition showIndexDefinitions :: "'d driver \<Rightarrow> db \<Rightarrow> string \<Rightarrow> (unit, 'd state) io" where
  "showIndexDefinitions drv d colName =
     (let col' = db_collection d colName
      in await (col_listSearchIndexes_toArray drv col') (\<lambda>indexes.
           if length indexes = 0
           then console_log [Str (''No indexes found for collection '' @ colName)]
           else
             await (console_log
                      [Str ([CHR 0x0A, CHR 0xE2, CHR 0x9C, CHR 0x94] @ '' Index definitions for ''
                            @ [CHR 0x27] @ colName @ [CHR 0x27] @ '':'' @ [CHR 0x0A])]) (\<lambda>_.
             forEach indexes (\<lambda>idx.
               await (console_log
                        [Str ([CHR 0xF0, CHR 0x9F, CHR 0x9F, CHR 0xA2] @ '' Index name: ''
                              @ idx_name idx)]) (\<lambda>_.
               await (console_dir idx) (\<lambda>_.
               console_log
                 [Str (concat (replicate 30 [CHR 0xE2, CHR 0x94, CHR 0x80]) @ [CHR 0x0A])]))))))"

definition createIndex :: "'d driver \<Rightarrow> db \<Rightarrow> string \<Rightarrow> string \<Rightarrow> 'd \<Rightarrow> (unit, 'd state) io" where
  "createIndex drv d col' name' definition =
     (let indexCollection = db_collection d col'
      in await (col_createSearchIndex drv indexCollection definition) (\<lambda>_.
         console_log [Str (''Created index '' @ name' @ '' on collection '' @ col')]))"

definition updateIndex :: "'d driver \<Rightarrow> db \<Rightarrow> string \<Rightarrow> string \<Rightarrow> 'd \<Rightarrow> (unit, 'd state) io" where
  "updateIndex drv d col' name' definition =
     (let indexCollection = db_collection d col'
      in await (col_updateSearchIndex drv indexCollection name' definition) (\<lambda>_.
         console_log [Str (''Updated index '' @ name' @ '' on collection '' @ col')]))"

text \<open>
  \<open>ensureIndex\<close> as it stands: it lists, loads the definition, takes the collection
  handle and, when the name is among the existing ones, awaits the handle itself
  (\<open>await indexCollection\<close>: a value, no call). There is no \<open>else\<close>.
\<close>

definition ensureIndex ::
    "process \<Rightarrow> 'd platform \<Rightarrow> 'd driver \<Rightarrow> db \<Rightarrow> IndexSpec \<Rightarrow> (unit, 'd state) io" where
  "ensureIndex p pl drv d spec =
     await (listExistingIndexes drv d (col spec)) (\<lambda>existingIndexes.
     await (sync (loadDefinition p pl (file spec))) (\<lambda>definition.
     let indexCollection = db_collection d (col spec)
     in if name spec \<in> set existingIndexes
        then await (resolve indexCollection) (\<lambda>_. resolve ())
        else resolve ()))"

text \<open>
  \<open>main\<close> of the fuller variant of the script (src/unnamed/part\_000), and of
  src/scripts/create-indexes.ts, which lacks the call of \<open>showIndexDefinitions\<close>.
  Neither reads \<open>process.argv\<close> or \<open>ALL_SPECS\<close>.
\<close>

definition main :: "process \<Rightarrow> 'd driver \<Rightarrow> (unit, 'd state) io" where
  "main p drv =
     await (or_await (env p ''MONGODB_URI'') (prompt ''Enter your MongoDB URI: '')) (\<lambda>uri.
     await (or_await (env p ''MONGODB_DB'') (prompt ''Enter database name: '')) (\<lambda>dbName.
     await (prompt ''Enter collection name: '') (\<lambda>colName.
     await (sync (new_MongoClient drv uri)) (\<lambda>client.
     await (client_connect drv client) (\<lambda>_.
     let d = client_db client dbName
     in await (listExistingIndexes drv d colName) (\<lambda>indexes.
        await (console_log [Str ([CHR 0x0A] @ ''Indexes on '' @ [CHR 0x27] @ colName
                                 @ [CHR 0x27] @ '':''), Names indexes]) (\<lambda>_.
        await (showIndexDefinitions drv d colName) (\<lambda>_.
        client_close drv client))))))))"


text \<open>The last statement of the script: \<open>main().catch(console.error)\<close>.\<close>

definition run :: "process \<Rightarrow> 'd driver \<Rightarrow> (unit, 'd state) io" where
  "run p drv s =
     (case main p drv s of
        (Throw e, s') \<Rightarrow> console_error [Err e] s'
      | r \<Rightarrow> r)"


section \<open>embeddings/openai.ts\<close>

text \<open>
  The OpenAI SDK is a parameter: its constructor may throw on the options it is given,
  and \<open>client.embeddings.create\<close> is the network call. The state is the list of network
  calls attempted. \<open>process.env.X!\<close> is a compile-time assertion only: an unset
  variable is read as \<open>undefined\<close> (\<open>None\<close>) and passed on.
\<close>

record client_options =
  opt_apiKey :: "string option"
  opt_baseURL :: "string option"
  opt_api_version :: "string option"   \<comment> \<open>\<open>defaultQuery: { "api-version": apiVer }\<close>\<close>

datatype 'n item = Item (embedding: "'n list")

datatype 'n response = Response (data: "'n item list")

datatype request = EmbeddingsCreate client_options "string option" string

record 'n openai =
  OpenAI_new :: "client_options \<Rightarrow> error option"
  embeddings_create :: "client_options \<Rightarrow> string option \<Rightarrow> string \<Rightarrow> 'n response res"

definition new_OpenAI :: "'n openai \<Rightarrow> client_options \<Rightarrow> error + client_options" where
  "new_OpenAI sdk opts = (case OpenAI_new sdk opts of Some e \<Rightarrow> Inl e | None \<Rightarrow> Inr opts)"

definition client_embeddings_create ::
    "'n openai \<Rightarrow> client_options \<Rightarrow> string option \<Rightarrow> string \<Rightarrow> ('n response, request list) io" where
  "client_embeddings_create sdk client model input s =
     (embeddings_create sdk client model input, s @ [EmbeddingsCreate client model input])"

definition getEmbeddingFromAzureSDK ::
    "process \<Rightarrow> 'n openai \<Rightarrow> string \<Rightarrow> ('n list, request list) io" where
  "getEmbeddingFromAzureSDK p sdk text =
     (let apiKey = env p ''OPENAI_API_KEY'';
          baseURL = env p ''OPENAI_BASE_URL'';
          apiVer = env p ''OPENAI_API_VERSION'';
          model = env p ''OPENAI_EMBEDDING_MODEL''
      in await (sync (new_OpenAI sdk
                  \<lparr>opt_apiKey = apiKey, opt_baseURL = baseURL, opt_api_version = apiVer\<rparr>)) (\<lambda>client.
         await (client_embeddings_create sdk client model text) (\<lambda>res.
         case data res of
           [] \<Rightarrow> reject (TypeError ''Cannot read properties of undefined (reading embedding)'')
         | first # _ \<Rightarrow> resolve (embedding first))))"


section \<open>Concrete environments\<close>

text \<open>
  The environments the concrete runs below use: a working directory \<open>/app\<close> whose
  \<open>config/indexes\<close> holds two files that are not JSON (\<open>a.json\<close> and \<open>b.json\<close>, both
  \<open>{\<close>) and one that is; a join of path parts that need no normalising; a parser that
  knows the empty object; a server that answers every listing with \<open>listing\<close> and accepts
  everything else; an embeddings service that needs a key to build a client and a model to
  answer.
\<close>

fun posix_join :: "string list \<Rightarrow> string" where
  "posix_join [] = ''.''"
| "posix_join [x] = x"
| "posix_join (x # y # ys) = x @ ''/'' @ posix_join (y # ys)"

definition tiny_parse :: "string \<Rightarrow> string + string" where
  "tiny_parse t = (if t = ''{}'' then Inr ''{}'' else Inl ''Unexpected end of JSON input'')"

definition app_process :: process where
  "app_process =
     \<lparr>env = [''MONGODB_URI'' \<mapsto> ''mongodb://localhost'', ''MONGODB_DB'' \<mapsto> ''shop''],
      argv = [], cwd = ''/app''\<rparr>"

definition bare_process :: process where
  "bare_process = \<lparr>env = Map.empty, argv = [], cwd = ''/app''\<rparr>"

definition disk :: "string platform" where
  "disk =
     \<lparr>path_join = posix_join,
      files = [''/app/config/indexes/a.json'' \<mapsto> ''{'',
               ''/app/config/indexes/b.json'' \<mapsto> ''{'',
               ''/app/config/indexes/products.vector.json'' \<mapsto> ''{}''],
      parse = tiny_parse\<rparr>"

definition server :: "string index_doc list res \<Rightarrow> string driver" where
  "server listing =
     \<lparr>MongoClient_new = (\<lambda>uri. if uri = [] then Some (ServiceError ''Invalid connection string'')
                                else None),
      connect = (\<lambda>_ _. Ok ()),
      listSearchIndexes = (\<lambda>_ _ _. listing),
      createSearchIndex = (\<lambda>_ _ _ _. Ok ()),
      updateSearchIndex = (\<lambda>_ _ _ _ _. Ok ()),
      close = (\<lambda>_ _. Ok ())\<rparr>"

definition shop :: db where
  "shop = \<lparr>client_uri = ''mongodb://localhost'', db_name = ''shop''\<rparr>"

definition unsupported :: error where
  "unsupported = ServiceError ''$listSearchIndexes is not supported''"

definition azure :: "real response res \<Rightarrow> real openai" where
  "azure answer =
     \<lparr>OpenAI_new = (\<lambda>opts. if opt_apiKey opts = None
                             then Some (ServiceError ''The OPENAI_API_KEY environment variable is missing or empty'')
                             else None),
      embeddings_create = (\<lambda>client model input.
                             if model = None then Throw (ServiceError ''400 you must provide a model parameter'')
                             else answer)\<rparr>"

definition azure_process :: process where
  "azure_process =
     \<lparr>env = [''OPENAI_API_KEY'' \<mapsto> ''k'',
             ''OPENAI_BASE_URL'' \<mapsto> ''https://example.openai.azure.com/openai/deployments/embed'',
             ''OPENAI_API_VERSION'' \<mapsto> ''2024-10-21'',
             ''OPENAI_EMBEDDING_MODEL'' \<mapsto> ''embed''],
      argv = [], cwd = ''/app''\<rparr>"

definition azure_options :: client_options where
  "azure_options =
     \<lparr>opt_apiKey = Some ''k'',
      opt_baseURL = Some ''https://example.openai.azure.com/openai/deployments/embed'',
      opt_api_version = Some ''2024-10-21''\<rparr>"

definition two_vectors :: "real response" where
  "two_vectors = Response [Item [0.25, -0.5], Item [1]]"

text \<open>
  The options \<open>getEmbeddingFromAzureSDK\<close> builds from the environment.
\<close>

abbreviation options_read :: "process \<Rightarrow> client_options" where
  "options_read p \<equiv>
     \<lparr>opt_apiKey = env p ''OPENAI_API_KEY'', opt_baseURL = env p ''OPENAI_BASE_URL'',
      opt_api_version = env p ''OPENAI_API_VERSION''\<rparr>"


section \<open>Events of a run\<close>

text \<open>
  \<open>new_events m s\<close> are the events \<open>m\<close> adds when started in \<open>s\<close>. \<open>grows m\<close>: \<open>m\<close> never
  rewrites the trace it starts from. \<open>prompted p k\<close> is the head the two variants of \<open>main\<close> share:
  the three questions, then the rest \<open>k\<close>.
\<close>

definition new_events :: "('a, 'd state) io \<Rightarrow> 'd state \<Rightarrow> 'd event list" where
  "new_events m s = drop (length (trace s)) (trace (snd (m s)))"

definition prompted ::
    "process \<Rightarrow> (string \<Rightarrow> string \<Rightarrow> string \<Rightarrow> (unit, 'd state) io) \<Rightarrow> (unit, 'd state) io" where
  "prompted p k =
     await (or_await (env p ''MONGODB_URI'') (prompt ''Enter your MongoDB URI: '')) (\<lambda>uri.
     await (or_await (env p ''MONGODB_DB'') (prompt ''Enter database name: '')) (\<lambda>dbName.
     await (prompt ''Enter collection name: '') (\<lambda>colName. k uri dbName colName)))"




text \<open>
  The two calls that change the server, and \<open>calm m\<close>: \<open>m\<close> only appends to the trace, and
  appends neither of them.
\<close>

fun is_create :: "'d event \<Rightarrow> bool" where
  "is_create (CreateSearchIndex _ _ _) = True"
| "is_create _ = False"

fun is_update :: "'d event \<Rightarrow> bool" where
  "is_update (UpdateSearchIndex _ _ _ _) = True"
| "is_update _ = False"

definition mutates :: "'d event \<Rightarrow> bool" where
  "mutates e = (is_create e \<or> is_update e)"

definition calm :: "('a, 'd state) io \<Rightarrow> bool" where
  "calm m = (\<forall>s. \<exists>es. trace (snd (m s)) = trace s @ es \<and> filter mutates es = [])"


section \<open>Evaluation and trace lemmas\<close>

lemmas run_simps =
  await_def resolve_def reject_def sync_def emit_def console_log_def console_error_def
  console_dir_def new_MongoClient_def client_connect_def client_db_def client_close_def
  db_collection_def col_listSearchIndexes_toArray_def col_createSearchIndex_def
  col_updateSearchIndex_def prompt_def or_await_def trim_def is_space_def
  listExistingIndexes_def showIndexDefinitions_def ensureIndex_def main_def run_def
  loadDefinition_def readFileSync_def JSON_parse_def
  app_process_def bare_process_def disk_def tiny_parse_def server_def shop_def unsupported_def
  ALL_SPECS_def Let_def

lemmas embed_simps =
  getEmbeddingFromAzureSDK_def new_OpenAI_def client_embeddings_create_def await_def sync_def
  resolve_def reject_def azure_def azure_process_def azure_options_def two_vectors_def Let_def


lemma calm_resolve: "calm (resolve a)"
  by (simp add: calm_def resolve_def)

lemma calm_sync: "calm (sync r)"
  by (simp add: calm_def sync_def split: sum.splits)

lemma calm_await:
  assumes "calm m" and "\<And>a. calm (f a)"
  shows "calm (await m f)"
proof -
  have "\<exists>es. trace (snd (await m f s)) = trace s @ es \<and> filter mutates es = []" for s
  proof (cases "m s")
    case (Pair r s')
    from assms(1) obtain es where es: "trace (snd (m s)) = trace s @ es" "filter mutates es = []"
      unfolding calm_def by blast
    show ?thesis
    proof (cases r)
      case (Ok a)
      from assms(2) obtain es' where
        "trace (snd (f a s')) = trace s' @ es'" "filter mutates es' = []"
        unfolding calm_def by blast
      with es Pair Ok have "trace (snd (await m f s)) = trace s @ (es @ es')"
        "filter mutates (es @ es') = []"
        by (simp_all add: await_def)
      then show ?thesis by blast
    qed (use es Pair in \<open>simp_all add: await_def\<close>)
  qed
  then show ?thesis by (simp add: calm_def)
qed

lemma calm_console_log: "calm (console_log args)"
  by (simp add: calm_def console_log_def emit_def mutates_def)

lemma calm_console_error: "calm (console_error args)"
  by (simp add: calm_def console_error_def emit_def mutates_def)

lemma calm_console_dir: "calm (console_dir idx)"
  by (simp add: calm_def console_dir_def emit_def mutates_def)

lemma calm_client_connect: "calm (client_connect drv c)"
  by (simp add: calm_def client_connect_def emit_def mutates_def)

lemma calm_client_close: "calm (client_close drv c)"
  by (simp add: calm_def client_close_def emit_def mutates_def)

lemma calm_toArray: "calm (col_listSearchIndexes_toArray drv c)"
  by (simp add: calm_def col_listSearchIndexes_toArray_def emit_def mutates_def)

lemma calm_prompt: "calm (prompt q)"
  by (simp add: calm_def prompt_def emit_def mutates_def split: list.splits)

lemma calm_or_await: "calm (or_await v (prompt q))"
  by (simp add: or_await_def calm_prompt calm_resolve split: option.splits)

lemma calm_forEach: "(\<And>x. calm (f x)) \<Longrightarrow> calm (forEach xs f)"
  by (induction xs) (simp_all add: calm_resolve calm_await)

lemma calm_listExistingIndexes: "calm (listExistingIndexes drv d colName)"
proof -
  have "listExistingIndexes drv d colName s =
      (case col_listSearchIndexes_toArray drv (db_collection d colName) s of
         (Ok all, s') \<Rightarrow> (Ok (map idx_name all), s')
       | (Throw err, s') \<Rightarrow>
           (Ok [], emit (ConsoleError [Str (''Failed to list indexes for '' @ colName @ '':''),
                                       Err err]) s')
       | (Hang, s') \<Rightarrow> (Hang, s'))" for s
    by (simp add: listExistingIndexes_def await_def console_error_def resolve_def Let_def
        split: prod.splits res.splits)
  then show ?thesis
    by (auto simp add: calm_def col_listSearchIndexes_toArray_def emit_def mutates_def
        split: res.splits)
qed

lemma calm_showIndexDefinitions: "calm (showIndexDefinitions drv d colName)"
  unfolding showIndexDefinitions_def Let_def
  by (intro calm_await calm_toArray)
     (auto intro!: calm_await calm_console_log calm_forEach calm_console_dir)

lemma calm_ensureIndex: "calm (ensureIndex p pl drv d spec)"
  unfolding ensureIndex_def Let_def
  by (intro calm_await calm_listExistingIndexes calm_sync)
     (auto intro!: calm_await calm_resolve)


lemma calm_new_events: "calm m \<Longrightarrow> filter mutates (new_events m s) = []"
proof -
  assume "calm m"
  then obtain es where "trace (snd (m s)) = trace s @ es" "filter mutates es = []"
    unfolding calm_def by blast
  then show ?thesis by (simp add: new_events_def)
qed

lemma no_create: "filter mutates es = [] \<Longrightarrow> filter is_create es = []"
  by (induction es) (auto simp add: mutates_def split: if_splits)

lemma no_update: "filter mutates es = [] \<Longrightarrow> filter is_update es = []"
  by (induction es) (auto simp add: mutates_def split: if_splits)















lemma main_prompted:
  "main p drv = prompted p (\<lambda>uri dbName colName.
     await (sync (new_MongoClient drv uri)) (\<lambda>client.
     await (client_connect drv client) (\<lambda>_.
     let d = client_db client dbName
     in await (listExistingIndexes drv d colName) (\<lambda>indexes.
        await (console_log [Str ([CHR 0x0A] @ ''Indexes on '' @ [CHR 0x27] @ colName
                                 @ [CHR 0x27] @ '':''), Names indexes]) (\<lambda>_.
        await (showIndexDefinitions drv d colName) (\<lambda>_.
        client_close drv client))))))"
  by (simp add: main_def prompted_def)


lemma calm_main_k:
  "calm (await (sync (new_MongoClient drv uri)) (\<lambda>client.
     await (client_connect drv client) (\<lambda>_.
     let d = client_db client dbName
     in await (listExistingIndexes drv d colName) (\<lambda>indexes.
        await (console_log [Str ([CHR 0x0A] @ ''Indexes on '' @ [CHR 0x27] @ colName
                                 @ [CHR 0x27] @ '':''), Names indexes]) (\<lambda>_.
        await (showIndexDefinitions drv d colName) (\<lambda>_.
        client_close drv client))))))"
  unfolding Let_def
  by (intro calm_await calm_sync calm_client_connect calm_listExistingIndexes
      calm_console_log calm_showIndexDefinitions calm_client_close)


lemma calm_main: "calm (main p drv)"
  unfolding main_prompted prompted_def
  by (intro calm_await calm_or_await calm_prompt calm_main_k)


section \<open>Reconciliation: create when absent, update when present\<close>

text \<open>
  C1. For a spec whose name is absent from the collection's search indexes,
  reconciliation should issue exactly one create call with the loaded definition.
  \<open>ensureIndex\<close> does not: on no input does it add a \<open>CreateSearchIndex\<close> event. For the
  first entry of \<open>ALL_SPECS\<close>, on a collection with no search index and with a
  definition file that parses, the only call it makes is the listing; it resolves and
  logs nothing. \<open>createIndex\<close> is never reached.
\<close>

theorem ensureIndex_absent_name_no_create:
  "filter is_create (new_events (ensureIndex p pl drv d spec) s) = []
   \<and> ensureIndex app_process disk (server (Ok [])) shop (ALL_SPECS ! 0) \<lparr>trace = [], stdin = []\<rparr>
     = (Ok (), \<lparr>trace = [ListSearchIndexes shop ''products''], stdin = []\<rparr>)"
  by (simp add: no_create [OF calm_new_events [OF calm_ensureIndex]]) (simp add: run_simps)

text \<open>
  C2. For a spec whose name is present, reconciliation should issue an update call with
  the name and the loaded definition. \<open>ensureIndex\<close> does not: on no input does it add an
  \<open>UpdateSearchIndex\<close> event. With an index named \<open>vector\<close> already on the collection,
  the branch awaits the collection handle and returns; the only call is the listing.
\<close>

theorem ensureIndex_present_name_no_update:
  "filter is_update (new_events (ensureIndex p pl drv d spec) s) = []
   \<and> ensureIndex app_process disk (server (Ok [IndexDoc ''vector'' ''{}''])) shop (ALL_SPECS ! 0)
       \<lparr>trace = [], stdin = []\<rparr>
     = (Ok (), \<lparr>trace = [ListSearchIndexes shop ''products''], stdin = []\<rparr>)"
  by (simp add: no_update [OF calm_new_events [OF calm_ensureIndex]]) (simp add: run_simps)


section \<open>Listing fails: the collection counts as empty\<close>

text \<open>
  C3. When the listing throws, whatever the error, \<open>listExistingIndexes\<close> resolves with
  the empty list after one \<open>console.error\<close> naming the collection and carrying the error;
  and it never rejects, whatever the driver does, so its caller goes on.
\<close>

theorem listExistingIndexes_catches:
  "(listSearchIndexes drv (trace s) d colName = Throw err \<longrightarrow>
      listExistingIndexes drv d colName s =
        (Ok [], s\<lparr>trace := trace s @
                   [ListSearchIndexes d colName,
                    ConsoleError [Str (''Failed to list indexes for '' @ colName @ '':''), Err err]]\<rparr>))
   \<and> fst (listExistingIndexes drv d colName s) \<noteq> Throw e"
  by (auto simp add: listExistingIndexes_def col_listSearchIndexes_toArray_def db_collection_def
      await_def console_error_def resolve_def emit_def Let_def split: res.splits)

theorem listExistingIndexes_catches_witness:
  "listExistingIndexes (server (Throw unsupported)) shop ''products'' \<lparr>trace = [], stdin = []\<rparr>
     = (Ok [],
        \<lparr>trace = [ListSearchIndexes shop ''products'',
                  ConsoleError [Str ''Failed to list indexes for products:'', Err unsupported]],
         stdin = []\<rparr>)"
  using listExistingIndexes_catches
    [where drv = "server (Throw unsupported)" and s = "\<lparr>trace = [], stdin = []\<rparr>"
       and d = shop and colName = "''products''" and err = unsupported]
  by (simp add: server_def)


section \<open>The dry-run flag\<close>

text \<open>
  C4. With \<open>--dry-run\<close> the script should print, for every spec, the action it would take.
  \<open>main\<close> does not depend on \<open>process.argv\<close> at all, and a run with the flag prints the
  names and definitions of the indexes of the collection asked for and nothing else: no
  create or update call is made (none is on any run of \<open>main\<close>), and no intended action is
  reported.
\<close>

theorem main_ignores_dry_run:
  "main (p\<lparr>argv := a\<rparr>) drv = main p drv
   \<and> filter mutates (new_events (main p drv) s) = []
   \<and> main (app_process\<lparr>argv := [''--dry-run'']\<rparr>) (server (Ok []))
        \<lparr>trace = [], stdin = [(''products'', [])]\<rparr>
     = (Ok (),
        \<lparr>trace =
           [Prompt ''Enter collection name: '',
            Connect ''mongodb://localhost'',
            ListSearchIndexes shop ''products'',
            ConsoleLog [Str ([CHR 0x0A] @ ''Indexes on '' @ [CHR 0x27] @ ''products''
                             @ [CHR 0x27] @ '':''), Names []],
            ListSearchIndexes shop ''products'',
            ConsoleLog [Str ''No indexes found for collection products''],
            Close ''mongodb://localhost''],
         stdin = []\<rparr>)"
  by (simp add: calm_new_events [OF calm_main]) (simp add: run_simps)


section \<open>The embedding client\<close>

text \<open>
  C5, as amended. When the client is built and the service answers with a response whose
  \<open>data\<close> has at least one element, \<open>getEmbeddingFromAzureSDK\<close> resolves with exactly the
  \<open>embedding\<close> of the first element, whatever the input text and the rest of the
  response.
\<close>

theorem getEmbedding_first_embedding:
  "OpenAI_new sdk (options_read p) = None
   \<and> embeddings_create sdk (options_read p) (env p ''OPENAI_EMBEDDING_MODEL'') t = Ok r
   \<and> data r = x # xs \<longrightarrow>
   fst (getEmbeddingFromAzureSDK p sdk t s) = Ok (embedding x)"
  by (simp add: getEmbeddingFromAzureSDK_def new_OpenAI_def client_embeddings_create_def
      await_def sync_def resolve_def Let_def)

theorem getEmbedding_first_embedding_witness:
  "fst (getEmbeddingFromAzureSDK azure_process (azure (Ok two_vectors)) ''hello'' [])
     = Ok [0.25, -0.5]"
  using getEmbedding_first_embedding
    [where p = azure_process and sdk = "azure (Ok two_vectors)" and t = "''hello''"
       and r = two_vectors and x = "Item [0.25, -0.5]" and xs = "[Item [1]]" and s = "[]"]
  by (simp add: azure_def azure_process_def two_vectors_def)

text \<open>
  C5 as stated speaks of every response. At a response with an empty \<open>data\<close> the function
  returns no embedding: it rejects with a \<open>TypeError\<close>, after the network call.
\<close>

theorem getEmbedding_empty_data_counterexample:
  "getEmbeddingFromAzureSDK azure_process (azure (Ok (Response []))) ''hello'' []
     = (Throw (TypeError ''Cannot read properties of undefined (reading embedding)''),
        [EmbeddingsCreate azure_options (Some ''embed'') ''hello''])"
  by (simp add: embed_simps)

text \<open>
  C6, as amended. \<open>getEmbeddingFromAzureSDK\<close> checks none of the four variables itself and
  substitutes nothing: it hands the key, the base URL and the API version as read to the
  SDK's constructor. When the constructor throws, that error is the result and no network
  call has been attempted; when it does not, exactly one embeddings call is attempted,
  with the options and the model as read, present or absent.
\<close>

theorem getEmbedding_no_check_of_its_own:
  "(OpenAI_new sdk (options_read p) = Some e \<longrightarrow>
      getEmbeddingFromAzureSDK p sdk t s = (Throw e, s))
   \<and> (OpenAI_new sdk (options_read p) = None \<longrightarrow>
      snd (getEmbeddingFromAzureSDK p sdk t s)
        = s @ [EmbeddingsCreate (options_read p) (env p ''OPENAI_EMBEDDING_MODEL'') t])"
  by (auto simp add: getEmbeddingFromAzureSDK_def new_OpenAI_def client_embeddings_create_def
      await_def sync_def resolve_def reject_def Let_def split: res.splits list.splits)

theorem getEmbedding_no_check_of_its_own_witness:
  "getEmbeddingFromAzureSDK
     (azure_process\<lparr>env := (env azure_process)(''OPENAI_API_KEY'' := None)\<rparr>)
     (azure (Ok two_vectors)) ''hello'' []
     = (Throw (ServiceError ''The OPENAI_API_KEY environment variable is missing or empty''), [])
   \<and> snd (getEmbeddingFromAzureSDK
        (azure_process\<lparr>env := (env azure_process)(''OPENAI_BASE_URL'' := None)\<rparr>)
        (azure (Ok two_vectors)) ''hello'' [])
     = [EmbeddingsCreate (azure_options\<lparr>opt_baseURL := None\<rparr>) (Some ''embed'') ''hello'']"
  using getEmbedding_no_check_of_its_own
    [where p = "azure_process\<lparr>env := (env azure_process)(''OPENAI_API_KEY'' := None)\<rparr>"
       and sdk = "azure (Ok two_vectors)" and t = "''hello''" and s = "[]"
       and e = "ServiceError ''The OPENAI_API_KEY environment variable is missing or empty''"]
    getEmbedding_no_check_of_its_own
    [where p = "azure_process\<lparr>env := (env azure_process)(''OPENAI_BASE_URL'' := None)\<rparr>"
       and sdk = "azure (Ok two_vectors)" and t = "''hello''" and s = "[]"]
  by (simp add: azure_def azure_process_def azure_options_def)

text \<open>
  C6 as stated says the function fails before any network call when any of the four is
  absent. The model identifier never reaches the constructor: with only
  \<open>OPENAI_EMBEDDING_MODEL\<close> unset the client is built and the embeddings call goes out
  with no model.
\<close>

theorem getEmbedding_missing_model_counterexample:
  "getEmbeddingFromAzureSDK
     (azure_process\<lparr>env := (env azure_process)(''OPENAI_EMBEDDING_MODEL'' := None)\<rparr>)
     (azure (Ok two_vectors)) ''hello'' []
     = (Throw (ServiceError ''400 you must provide a model parameter''),
        [EmbeddingsCreate azure_options None ''hello''])"
  by (simp add: embed_simps)

text \<open>
  C10. With an empty \<open>data\<close> the function rejects with a \<open>TypeError\<close> (it reads
  \<open>embedding\<close> of \<open>data[0]\<close>, which is \<open>undefined\<close>) and does not resolve with an empty
  vector; and whenever it resolves, the response had a first element and the result is
  that element's \<open>embedding\<close>.
\<close>

theorem getEmbedding_throws_on_empty_data:
  "(OpenAI_new sdk (options_read p) = None
    \<and> embeddings_create sdk (options_read p) (env p ''OPENAI_EMBEDDING_MODEL'') t = Ok r
    \<and> data r = [] \<longrightarrow>
      fst (getEmbeddingFromAzureSDK p sdk t s)
        = Throw (TypeError ''Cannot read properties of undefined (reading embedding)''))
   \<and> (fst (getEmbeddingFromAzureSDK p sdk t s) = Ok v \<longrightarrow>
      (\<exists>r x xs. embeddings_create sdk (options_read p) (env p ''OPENAI_EMBEDDING_MODEL'') t = Ok r
         \<and> data r = x # xs \<and> v = embedding x))"
  by (auto simp add: getEmbeddingFromAzureSDK_def new_OpenAI_def client_embeddings_create_def
      await_def sync_def resolve_def reject_def Let_def
      split: res.splits list.splits option.splits)

theorem getEmbedding_throws_on_empty_data_witness:
  "fst (getEmbeddingFromAzureSDK azure_process (azure (Ok (Response []))) ''hello'' [])
     = Throw (TypeError ''Cannot read properties of undefined (reading embedding)'')
   \<and> (\<exists>r x xs. embeddings_create (azure (Ok two_vectors)) (options_read azure_process)
                   (env azure_process ''OPENAI_EMBEDDING_MODEL'') ''hello'' = Ok r
         \<and> data r = x # xs \<and> [0.25, -0.5] = embedding x)"
  using getEmbedding_throws_on_empty_data
    [where p = azure_process and sdk = "azure (Ok (Response []))" and t = "''hello''"
       and r = "Response []" and s = "[]"]
    getEmbedding_throws_on_empty_data
    [where p = azure_process and sdk = "azure (Ok two_vectors)" and t = "''hello''"
       and v = "[0.25, -0.5]" and s = "[]"]
  by (simp add: embed_simps)


section \<open>Loading a definition\<close>

text \<open>
  C7, as amended. A missing file makes \<open>loadDefinition\<close> fail with the read error, which
  carries the full path. A file that is not JSON makes it fail with the parser's
  \<open>SyntaxError\<close>, whose message the parser made from the contents alone. Neither is
  caught: \<open>ensureIndex\<close> rejects with the same error whenever the listing before it comes
  back, with a list or with an error (a listing that never returns leaves it waiting).
\<close>

theorem loadDefinition_failures:
  "(files pl (path_join pl [cwd p, ''config'', ''indexes'', f]) = None \<longrightarrow>
      loadDefinition p pl f = Inl (ENOENT (path_join pl [cwd p, ''config'', ''indexes'', f])))
   \<and> (files pl (path_join pl [cwd p, ''config'', ''indexes'', f]) = Some contents
        \<and> parse pl contents = Inl msg \<longrightarrow>
      loadDefinition p pl f = Inl (SyntaxError msg))
   \<and> (loadDefinition p pl (file spec) = Inl e \<longrightarrow>
        fst (ensureIndex p pl drv d spec s)
          = (if listSearchIndexes drv (trace s) d (col spec) = Hang then Hang else Throw e))"
  by (auto simp add: loadDefinition_def readFileSync_def JSON_parse_def Let_def ensureIndex_def
      await_def sync_def listExistingIndexes_def resolve_def console_error_def
      col_listSearchIndexes_toArray_def db_collection_def
      split: prod.splits res.splits option.splits sum.splits)

theorem loadDefinition_failures_witness:
  "loadDefinition app_process disk ''missing.json''
     = Inl (ENOENT ''/app/config/indexes/missing.json'')
   \<and> loadDefinition app_process disk ''a.json''
     = Inl (SyntaxError ''Unexpected end of JSON input'')
   \<and> fst (ensureIndex app_process disk (server (Ok [])) shop
             \<lparr>col = ''products'', name = ''vector'', file = ''a.json''\<rparr>
             \<lparr>trace = [], stdin = []\<rparr>)
       = Throw (SyntaxError ''Unexpected end of JSON input'')"
  using loadDefinition_failures
    [where p = app_process and pl = disk and f = "''missing.json''"
       and spec = "\<lparr>col = ''products'', name = ''vector'', file = ''a.json''\<rparr>"
       and e = "SyntaxError ''Unexpected end of JSON input''"
       and drv = "server (Ok [])" and d = shop and s = "\<lparr>trace = [], stdin = []\<rparr>"]
    loadDefinition_failures
    [where p = app_process and pl = disk and f = "''a.json''" and contents = "''{''"
       and msg = "''Unexpected end of JSON input''"
       and spec = "\<lparr>col = ''products'', name = ''vector'', file = ''a.json''\<rparr>"
       and e = "SyntaxError ''Unexpected end of JSON input''"
       and drv = "server (Ok [])" and d = shop and s = "\<lparr>trace = [], stdin = []\<rparr>"]
  by (simp add: loadDefinition_def readFileSync_def JSON_parse_def app_process_def disk_def
      tiny_parse_def server_def)

text \<open>
  C7 as stated says the error of a file that is not JSON identifies the offending path.
  Two different files with the same bad contents raise one and the same error, so the
  error does not tell which file it was.
\<close>

theorem loadDefinition_bad_json_counterexample:
  "loadDefinition app_process disk ''a.json'' = Inl (SyntaxError ''Unexpected end of JSON input'')
   \<and> loadDefinition app_process disk ''b.json'' = Inl (SyntaxError ''Unexpected end of JSON input'')"
  by (simp add: loadDefinition_def readFileSync_def JSON_parse_def app_process_def disk_def
      tiny_parse_def)


section \<open>Closing the connection\<close>

text \<open>
  C8. The client should be closed on every run, also when an error reaches the top-level
  handler. \<open>client.close()\<close> is the last statement of \<open>main\<close> and nothing guards it: on a
  server where the listing throws, \<open>listExistingIndexes\<close> swallows the error,
  \<open>showIndexDefinitions\<close> lists again and rejects, the top-level handler logs the error,
  and the run ends after \<open>Connect\<close> with no \<open>Close\<close> event.
\<close>

theorem run_leaves_connection_open:
  "run app_process (server (Throw unsupported)) \<lparr>trace = [], stdin = [(''products'', [])]\<rparr>
     = (Ok (),
        \<lparr>trace =
           [Prompt ''Enter collection name: '',
            Connect ''mongodb://localhost'',
            ListSearchIndexes shop ''products'',
            ConsoleError [Str ''Failed to list indexes for products:'', Err unsupported],
            ConsoleLog [Str ([CHR 0x0A] @ ''Indexes on '' @ [CHR 0x27] @ ''products''
                             @ [CHR 0x27] @ '':''), Names []],
            ListSearchIndexes shop ''products'',
            ConsoleError [Err unsupported]],
         stdin = []\<rparr>)"
  by (simp add: run_simps)


section \<open>The interactive questions\<close>




end
